theory Spec2Isabelle
  imports Complex_Main
begin

section \<open>Bond calculations: day count, pricing and yield to maturity\<close>

text \<open>
  The development embeds three Python modules: \<^verbatim>\<open>bonds/fixedrate_bond.py\<close> (class
  \<^verbatim>\<open>FixedRateBond\<close>, one scalar coupon), \<^verbatim>\<open>bonds/variablerate_bond.py\<close> (class
  \<^verbatim>\<open>BondInfo\<close>, a coupon per period) and \<^verbatim>\<open>fixed_income/bondmath.py\<close> (function
  \<^verbatim>\<open>IRR\<close>).

  The source is read as Python 3: \<^verbatim>\<open>/\<close> is true division, and the variables of a
  list comprehension are local to it.

  Numbers. Python's unbounded integers are \<^typ>\<open>int\<close>. Python and numpy floats are
  modelled by real numbers with exact arithmetic: rounding and overflow are outside the
  model. What floating point returns instead of a real number (a nan, an infinity, or
  the complex number that Python gives for a negative base under a fractional exponent)
  is the one value \<open>NaN\<close>. Every exception the source can raise is a value of
  \<open>pyerr\<close>, and a function that may raise returns \<open>pyerr + 'a\<close>.
\<close>

subsection \<open>Exceptions and floats\<close>

text \<open>
  The first five exceptions are raised by the source or by the library it calls. The
  last three are the error classes of the specification; no path of the source raises
  them.
\<close>

datatype pyerr =
    NameError
  | UnboundLocalError
  | IndexError
  | ZeroDivisionError
  | RuntimeError
  | ConfigurationError
  | DomainError
  | ConvergenceError real real

datatype pyfloat = Fin real | NaN

fun fadd :: "pyfloat \<Rightarrow> pyfloat \<Rightarrow> pyfloat" where
  "fadd (Fin a) (Fin b) = Fin (a + b)"
| "fadd _ _ = NaN"

fun fsub :: "pyfloat \<Rightarrow> pyfloat \<Rightarrow> pyfloat" where
  "fsub (Fin a) (Fin b) = Fin (a - b)"
| "fsub _ _ = NaN"

fun fmul :: "pyfloat \<Rightarrow> pyfloat \<Rightarrow> pyfloat" where
  "fmul (Fin a) (Fin b) = Fin (a * b)"
| "fmul _ _ = NaN"

text \<open>
  True division. A numpy float divided by zero is an infinity or a nan, with a warning;
  a Python number divided by zero raises.
\<close>

fun np_truediv :: "pyfloat \<Rightarrow> pyfloat \<Rightarrow> pyfloat" where
  "np_truediv (Fin a) (Fin b) = (if b = 0 then NaN else Fin (a / b))"
| "np_truediv _ _ = NaN"

fun py_truediv :: "pyfloat \<Rightarrow> pyfloat \<Rightarrow> pyerr + pyfloat" where
  "py_truediv a (Fin b) =
     (if b = 0 then Inl ZeroDivisionError
      else Inr (case a of Fin x \<Rightarrow> Fin (x / b) | NaN \<Rightarrow> NaN))"
| "py_truediv a NaN = Inr NaN"

text \<open>
  Exponentiation \<^verbatim>\<open>base ** e\<close> with a finite exponent. A positive base has a real power
  for every exponent; a negative base has one for integral exponents only; zero to a
  negative power is an infinity in numpy and a \<^verbatim>\<open>ZeroDivisionError\<close> in Python; and
  \<^verbatim>\<open>nan ** 0\<close> is 1. (An infinity is a power only for a zero base under a negative
  exponent. The exponents of the source are \<open>i - t / T\<close> with \<open>i \<ge> 1\<close>, which are positive
  for the periods that \<^verbatim>\<open>calendar_360\<close> computes, so that no number is divided by an
  infinity there and \<open>NaN\<close> can stand for the infinity as well.)
\<close>

definition real_power :: "real \<Rightarrow> real \<Rightarrow> pyfloat" where
  "real_power b e =
     (if 0 < b then Fin (b powr e)
      else if b = 0 then (if 0 < e then Fin 0 else if e = 0 then Fin 1 else NaN)
      else if e \<in> \<int> then Fin (b powi \<lfloor>e\<rfloor>)
      else NaN)"

fun np_power :: "pyfloat \<Rightarrow> real \<Rightarrow> pyfloat" where
  "np_power (Fin b) e = real_power b e"
| "np_power NaN e = (if e = 0 then Fin 1 else NaN)"

fun py_power :: "pyfloat \<Rightarrow> real \<Rightarrow> pyerr + pyfloat" where
  "py_power (Fin b) e = (if b = 0 \<and> e < 0 then Inl ZeroDivisionError else Inr (real_power b e))"
| "py_power NaN e = Inr (if e = 0 then Fin 1 else NaN)"

text \<open>The float remainder \<^verbatim>\<open>x % m\<close> of Python takes the sign of the divisor.\<close>

definition py_fmod :: "real \<Rightarrow> real \<Rightarrow> real" where
  "py_fmod x m = x - m * of_int \<lfloor>x / m\<rfloor>"

text \<open>Python's \<^verbatim>\<open>sum\<close> starts from 0 and adds from the left.\<close>

definition py_sum :: "pyfloat list \<Rightarrow> pyfloat" where
  "py_sum xs = foldl fadd (Fin 0) xs"

text \<open>Sequencing of a computation that may raise.\<close>

fun and_then :: "pyerr + 'a \<Rightarrow> ('a \<Rightarrow> pyerr + 'b) \<Rightarrow> pyerr + 'b" where
  "and_then (Inl e) f = Inl e"
| "and_then (Inr v) f = f v"

subsection \<open>Dates and the 30/360 day count\<close>

record date =
  year :: int
  month :: int
  day :: int

definition mk_date :: "int \<Rightarrow> int \<Rightarrow> int \<Rightarrow> date" where
  "mk_date yr mo d = \<lparr>year = yr, month = mo, day = d\<rparr>"

definition isleap :: "int \<Rightarrow> bool" where
  "isleap yr = (yr mod 4 = 0 \<and> (yr mod 100 \<noteq> 0 \<or> yr mod 400 = 0))"

definition mdays :: "int list" where
  "mdays = [0, 31, 28, 31, 30, 31, 30, 31, 31, 30, 31, 30, 31]"

text \<open>
  \<^verbatim>\<open>calendar.monthrange(year, month)[-1]\<close>, the number of days of a month, for a month
  from 1 to 12 (the source asks for February only).
\<close>

definition monthrange_last :: "int \<Rightarrow> int \<Rightarrow> int" where
  "monthrange_last yr mo = mdays ! nat mo + (if mo = 2 \<and> isleap yr then 1 else 0)"

text \<open>
  \<^verbatim>\<open>calendar_360\<close> has the same text in both classes. It reads the two dates and the
  frequency of the object. The four \<^verbatim>\<open>if\<close> statements run in sequence, each on the days
  the earlier ones left. The division \<^verbatim>\<open>360 / freq\<close> raises for a zero frequency.
\<close>

definition n_days_360 :: "date \<Rightarrow> date \<Rightarrow> int" where
  "n_days_360 tD mD =
     (let t_day = day tD; m_day = day mD;
          t_day = (if month tD = 2 \<and> t_day = monthrange_last (year tD) (month tD)
                   then 30 else t_day);
          m_day = (if month mD = 2 \<and> m_day = monthrange_last (year mD) (month mD)
                   then 30 else m_day);
          m_day = (if (t_day = 30 \<or> t_day = 31) \<and> m_day = 31 then 30 else m_day);
          t_day = (if t_day > 30 then 30 else t_day)
      in 360 * (year mD - year tD) + 30 * (month mD - month tD) + (m_day - t_day))"

definition calendar_360 :: "date \<Rightarrow> date \<Rightarrow> int \<Rightarrow> pyerr + (int \<times> real \<times> real)" where
  "calendar_360 tD mD freq =
     (let n_days = n_days_360 tD mD;
          n = \<lceil>of_int n_days / 360 * of_int freq :: real\<rceil>
      in if freq = 0 then Inl ZeroDivisionError
         else (let T = 360 / of_int freq;
                   t = T - py_fmod (of_int n_days) T
               in Inr (n, T, t)))"

subsection \<open>Bond objects\<close>

text \<open>
  Both classes store the same attributes; \<^verbatim>\<open>FixedRateBond\<close> holds one coupon rate
  (a numpy scalar), \<^verbatim>\<open>BondInfo\<close> a numpy array of them, one per period. The
  yield is a float, and \<^verbatim>\<open>np.nan\<close> when the caller gives none.
\<close>

record 'c bond =
  self_tDate :: date
  self_mDate :: date
  self_fv :: real
  self_ac :: 'c
  self_c :: 'c
  self_ytm :: pyfloat
  self_y :: pyfloat
  self_apmt :: 'c
  self_pmt :: 'c
  self_freq :: int
  self_n :: int
  self_t :: real
  self_T :: real
  self_calendarDays :: int

text \<open>
  \<^verbatim>\<open>__init__\<close>, from parsed dates. The first statement that can raise is
  \<^verbatim>\<open>self.y = self.ytm / freq\<close>, a Python float division. The period is computed for
  \<^verbatim>\<open>calendarDays == 360\<close> only; the other branch is \<^verbatim>\<open>pass\<close>, so that the next
  statement, \<^verbatim>\<open>self.n = n\<close>, reads a local name that was never bound.
\<close>

definition period_of :: "date \<Rightarrow> date \<Rightarrow> int \<Rightarrow> int \<Rightarrow> pyerr + (int \<times> real \<times> real)" where
  "period_of tDate mDate freq calendarDays =
     (if calendarDays = 360 then calendar_360 tDate mDate freq else Inl UnboundLocalError)"

definition BondInfo_init ::
  "date \<Rightarrow> date \<Rightarrow> real \<Rightarrow> real list \<Rightarrow> int \<Rightarrow> pyfloat \<Rightarrow> int \<Rightarrow> pyerr + real list bond" where
  "BondInfo_init tDate mDate fv ac freq ytm calendarDays =
     (let ac1 = map (\<lambda>a. a / 100) ac;
          ytm1 = np_truediv ytm (Fin 100)
      in and_then (py_truediv ytm1 (Fin (of_int freq))) (\<lambda>y.
         let c = map (\<lambda>a. a / of_int freq) ac1;
             apmt = map (\<lambda>a. a * fv) ac1;
             pmt = map (\<lambda>a. a / of_int freq) apmt
         in and_then (period_of tDate mDate freq calendarDays) (\<lambda>(n, T, t).
            Inr \<lparr>self_tDate = tDate, self_mDate = mDate, self_fv = fv, self_ac = ac1,
                 self_c = c, self_ytm = ytm1, self_y = y, self_apmt = apmt, self_pmt = pmt,
                 self_freq = freq, self_n = n, self_t = t, self_T = T,
                 self_calendarDays = calendarDays\<rparr>)))"

definition FixedRateBond_init ::
  "date \<Rightarrow> date \<Rightarrow> real \<Rightarrow> real \<Rightarrow> int \<Rightarrow> pyfloat \<Rightarrow> int \<Rightarrow> pyerr + real bond" where
  "FixedRateBond_init tDate mDate fv ac freq ytm calendarDays =
     (let ac1 = ac / 100;
          ytm1 = np_truediv ytm (Fin 100)
      in and_then (py_truediv ytm1 (Fin (of_int freq))) (\<lambda>y.
         let c = ac1 / of_int freq;
             apmt = ac1 * fv;
             pmt = apmt / of_int freq
         in and_then (period_of tDate mDate freq calendarDays) (\<lambda>(n, T, t).
            Inr \<lparr>self_tDate = tDate, self_mDate = mDate, self_fv = fv, self_ac = ac1,
                 self_c = c, self_ytm = ytm1, self_y = y, self_apmt = apmt, self_pmt = pmt,
                 self_freq = freq, self_n = n, self_t = t, self_T = T,
                 self_calendarDays = calendarDays\<rparr>)))"

subsection \<open>Pricing\<close>

text \<open>
  The discounted coupons \<^verbatim>\<open>sum([pmt/(1+y)**(i-f) for pmt,i in zip(pmt,N)])\<close> with
  \<^verbatim>\<open>N = np.array(range(n)) + 1\<close>; \<open>f\<close> is 0 on a coupon date and \<open>t/T\<close> otherwise.
  \<^verbatim>\<open>zip\<close> stops at the shorter of its arguments. The coupons and the indices are numpy
  numbers, so this part never raises.
\<close>

definition coupon_sum :: "real list \<Rightarrow> pyfloat \<Rightarrow> int \<Rightarrow> real \<Rightarrow> pyfloat" where
  "coupon_sum pmt base n f =
     py_sum (map (\<lambda>(pmt, i). np_truediv (Fin pmt) (np_power base (of_int i - f)))
               (zip pmt [1..n]))"

text \<open>
  The dirty price of \<^verbatim>\<open>BondInfo\<close>,
  \<^verbatim>\<open>sum([pmt/(1+y)**(i-f) for pmt,i in zip(pmt,N)]) + fv/(1+y)**(n-f)\<close>. The face
  value is a Python number, so its discounting raises where the power is zero.
\<close>

definition discounted_sum :: "real list \<Rightarrow> real \<Rightarrow> pyfloat \<Rightarrow> int \<Rightarrow> real \<Rightarrow> pyerr + pyfloat" where
  "discounted_sum pmt fv y n f =
     (let base = fadd (Fin 1) y;
          coupons = coupon_sum pmt base n f
      in and_then (py_power base (of_int n - f)) (\<lambda>pw.
         and_then (py_truediv (Fin fv) pw) (\<lambda>q.
           Inr (fadd coupons q))))"

text \<open>
  \<^verbatim>\<open>BondInfo.dirtyPrice\<close>. On a coupon date (\<^verbatim>\<open>t == T\<close>) the exponents are the
  indices. Otherwise \<^verbatim>\<open>t/T\<close> raises for \<open>T = 0\<close>, and \<^verbatim>\<open>pmt[1]\<close> raises for an array
  of fewer than two coupons.
\<close>

definition BondInfo_dirtyPrice :: "real list bond \<Rightarrow> pyerr + (pyfloat \<times> pyfloat \<times> pyfloat)" where
  "BondInfo_dirtyPrice self =
     (let pmt = self_pmt self; fv = self_fv self; y = self_y self; n = self_n self;
          t = self_t self; T = self_T self
      in if t = T then
           and_then (discounted_sum pmt fv y n 0) (\<lambda>dirtyPrice.
             let accruedInterest = Fin 0;
                 cleanPrice = fsub dirtyPrice accruedInterest
             in Inr (dirtyPrice, accruedInterest, cleanPrice))
         else if T = 0 then Inl ZeroDivisionError
         else
           and_then (discounted_sum pmt fv y n (t / T)) (\<lambda>dirtyPrice.
             if length pmt < 2 then Inl IndexError
             else
               let accruedInterest = Fin (pmt ! 1 * (t / T));
                   cleanPrice = fsub dirtyPrice accruedInterest
               in Inr (dirtyPrice, accruedInterest, cleanPrice)))"

text \<open>
  \<^verbatim>\<open>FixedRateBond.simplePrice\<close>: \<^verbatim>\<open>(pmt)/y * (1 - 1/(1+y)**n) + fv/(1+y)**n\<close>. The
  coupon is a numpy scalar (\<^verbatim>\<open>pmt/y\<close> does not raise); \<^verbatim>\<open>1\<close> and \<^verbatim>\<open>fv\<close> are Python
  numbers.
\<close>

definition annuity_balloon :: "real \<Rightarrow> real \<Rightarrow> pyfloat \<Rightarrow> int \<Rightarrow> pyerr + pyfloat" where
  "annuity_balloon pmt fv y n =
     (let base = fadd (Fin 1) y
      in and_then (py_power base (of_int n)) (\<lambda>pw.
         and_then (py_truediv (Fin 1) pw) (\<lambda>d.
         and_then (py_truediv (Fin fv) pw) (\<lambda>q.
           Inr (fadd (fmul (np_truediv (Fin pmt) y) (fsub (Fin 1) d)) q)))))"

definition FixedRateBond_simplePrice :: "real bond \<Rightarrow> pyerr + pyfloat" where
  "FixedRateBond_simplePrice self =
     annuity_balloon (self_pmt self) (self_fv self) (self_y self) (self_n self)"

text \<open>
  The dirty price of \<^verbatim>\<open>FixedRateBond\<close> between coupon dates,
  \<^verbatim>\<open>(pmt/y * (1-(1/(1+y)**n)) + fv/(1+y)**n) * (1+y)**f\<close>.
\<close>

definition closed_form :: "real \<Rightarrow> real \<Rightarrow> pyfloat \<Rightarrow> int \<Rightarrow> real \<Rightarrow> pyerr + pyfloat" where
  "closed_form pmt fv y n f =
     and_then (annuity_balloon pmt fv y n) (\<lambda>pv.
     and_then (py_power (fadd (Fin 1) y) f) (\<lambda>g.
       Inr (fmul pv g)))"

text \<open>
  \<^verbatim>\<open>FixedRateBond.dirtyPrice\<close>. On a coupon date the method calls \<^verbatim>\<open>simplePrice()\<close>,
  a name that is bound neither in the method nor in the module (the method of that
  name is an attribute of the object).
\<close>

definition FixedRateBond_dirtyPrice :: "real bond \<Rightarrow> pyerr + (pyfloat \<times> pyfloat \<times> pyfloat)" where
  "FixedRateBond_dirtyPrice self =
     (let pmt = self_pmt self; fv = self_fv self; y = self_y self; n = self_n self;
          t = self_t self; T = self_T self
      in if t = T then Inl NameError
         else if T = 0 then Inl ZeroDivisionError
         else
           and_then (closed_form pmt fv y n (t / T)) (\<lambda>dirtyPrice.
             let accruedInterest = Fin (pmt * (t / T));
                 cleanPrice = fsub dirtyPrice accruedInterest
             in Inr (dirtyPrice, accruedInterest, cleanPrice)))"

subsection \<open>Yield to maturity\<close>


text \<open>
  \<^verbatim>\<open>FixedRateBond.ytm_couponList\<close> returns the residual itself, a function of \<open>x\<close>,
  and leaves the root finding to its caller. Its comprehension runs over the indices
  with the one coupon, which is a zip of \<open>n\<close> copies of the coupon with the indices.
\<close>

definition FixedRateBond_ytm_couponList :: "real bond \<Rightarrow> real \<Rightarrow> real \<Rightarrow> real \<Rightarrow> pyerr + pyfloat" where
  "FixedRateBond_ytm_couponList self price guess x =
     (let pmt = self_pmt self; fv = self_fv self; n = self_n self;
          t = self_t self; T = self_T self;
          base = Fin (1 + x); pmts = replicate (nat n) pmt
      in if t = T then
           Inr (fsub (fadd (coupon_sum pmts base n 0)
                           (np_truediv (Fin fv) (np_power base (of_int n)))) (Fin price))
         else if T = 0 then Inl ZeroDivisionError
         else
           Inr (fsub (fadd (coupon_sum pmts base n (t / T))
                           (np_truediv (Fin fv) (np_power base (of_int n - t / T)))) (Fin price)))"









subsection \<open>The day count in the words of the specification\<close>



subsection \<open>Example objects\<close>

text \<open>
  The objects that the constructors build from four concrete inputs (the theorems of
  the next section show it): a two-period bond on a coupon date, with two 8% coupons
  (\<open>par_bond\<close>), with a series of one coupon only (\<open>short_bond\<close>) and as a
  \<^verbatim>\<open>FixedRateBond\<close> (\<open>fixed_par_bond\<close>); and a two-period bond between coupon dates
  with coupons of 8% and 10% (\<open>stub_bond\<close>).
\<close>

definition par_bond :: "real list bond" where
  "par_bond = \<lparr>self_tDate = mk_date 2019 11 15, self_mDate = mk_date 2020 11 15,
     self_fv = 100, self_ac = [2 / 25, 2 / 25], self_c = [1 / 25, 1 / 25],
     self_ytm = Fin (2 / 25), self_y = Fin (1 / 25), self_apmt = [8, 8], self_pmt = [4, 4],
     self_freq = 2, self_n = 2, self_t = 180, self_T = 180, self_calendarDays = 360\<rparr>"


definition fixed_par_bond :: "real bond" where
  "fixed_par_bond = \<lparr>self_tDate = mk_date 2019 11 15, self_mDate = mk_date 2020 11 15,
     self_fv = 100, self_ac = 2 / 25, self_c = 1 / 25,
     self_ytm = Fin (2 / 25), self_y = Fin (1 / 25), self_apmt = 8, self_pmt = 4,
     self_freq = 2, self_n = 2, self_t = 180, self_T = 180, self_calendarDays = 360\<rparr>"

definition stub_bond :: "real list bond" where
  "stub_bond = \<lparr>self_tDate = mk_date 2020 1 15, self_mDate = mk_date 2020 12 15,
     self_fv = 100, self_ac = [2 / 25, 1 / 10], self_c = [1 / 25, 1 / 20],
     self_ytm = Fin (2 / 25), self_y = Fin (1 / 25), self_apmt = [8, 10], self_pmt = [4, 5],
     self_freq = 2, self_n = 2, self_t = 30, self_T = 180, self_calendarDays = 360\<rparr>"

section \<open>Properties\<close>

subsection \<open>The period invariant\<close>

lemmas date_simps = mk_date_def monthrange_last_def isleap_def mdays_def




subsection \<open>The 30/360 normalisation\<close>




subsection \<open>Day-count bases other than 360\<close>

text \<open>
  C9, at the input of the module's own example with the default basis 365 in place of
  360: the constructor of either class raises \<^verbatim>\<open>UnboundLocalError\<close>, and no period is
  computed.
\<close>

theorem init_actual_365_raises:
  "BondInfo_init (mk_date 2011 2 14) (mk_date 2020 11 15) 100 (replicate 20 8) 2 (Fin 8) 365
     = Inl UnboundLocalError
   \<and> FixedRateBond_init (mk_date 2011 2 14) (mk_date 2020 11 15) 100 8 2 (Fin 8) 365
     = Inl UnboundLocalError"
  by (simp add: BondInfo_init_def FixedRateBond_init_def period_of_def Let_def)

subsection \<open>Pricing at a yield above -1\<close>

lemmas init_simps = BondInfo_init_def FixedRateBond_init_def period_of_def calendar_360_def
  n_days_360_def date_simps py_fmod_def Let_def

lemma foldl_fadd_Fin:
  "foldl fadd (Fin a) (map (\<lambda>x. Fin (h x)) xs) = Fin (a + sum_list (map h xs))"
  by (induction xs arbitrary: a) (simp_all add: add.assoc)

lemma py_sum_Fin: "py_sum (map (\<lambda>x. Fin (h x)) xs) = Fin (sum_list (map h xs))"
  by (simp add: py_sum_def foldl_fadd_Fin)

text \<open>The zip of the coupons with the indices has the length of the shorter list.\<close>

lemma zip_upto_conv:
  "zip pmt [1..n] = map (\<lambda>k. (pmt ! k, int k + 1)) [0..<min (length pmt) (nat n)]"
proof (rule nth_equalityI)
  show "length (zip pmt [1..n])
        = length (map (\<lambda>k. (pmt ! k, int k + 1)) [0..<min (length pmt) (nat n)])"
    by simp
next
  fix i assume "i < length (zip pmt [1..n])"
  then have i: "i < length pmt" "i < nat n"
    by simp_all
  then have "[1..n] ! i = 1 + int i"
    by (intro nth_upto) linarith
  with i show "zip pmt [1..n] ! i
               = map (\<lambda>k. (pmt ! k, int k + 1)) [0..<min (length pmt) (nat n)] ! i"
    by simp
qed

lemma coupon_sum_pos:
  assumes "0 < b"
  shows "coupon_sum pmt (Fin b) n f =
         Fin (\<Sum>k<min (length pmt) (nat n). pmt ! k / b powr (real k + 1 - f))"
proof -
  have "coupon_sum pmt (Fin b) n f =
        py_sum (map (\<lambda>k. Fin (pmt ! k / b powr (real k + 1 - f)))
                  [0..<min (length pmt) (nat n)])"
    using assms by (simp add: coupon_sum_def zip_upto_conv real_power_def o_def)
  also have "\<dots> = Fin (\<Sum>k<min (length pmt) (nat n). pmt ! k / b powr (real k + 1 - f))"
    by (simp add: py_sum_Fin interv_sum_list_conv_sum_set_nat atLeast0LessThan)
  finally show ?thesis .
qed

lemma discounted_sum_pos:
  assumes "- 1 < y"
  shows "discounted_sum pmt fv (Fin y) n f =
         Inr (Fin ((\<Sum>k<min (length pmt) (nat n). pmt ! k / (1 + y) powr (real k + 1 - f))
                   + fv / (1 + y) powr (of_int n - f)))"
  using assms by (simp add: discounted_sum_def coupon_sum_pos real_power_def Let_def)

lemma on_coupon_sum:
  assumes "- 1 < y" "1 \<le> n" "nat n \<le> length pmt"
  shows "(\<Sum>k<min (length pmt) (nat n). pmt ! k / (1 + y) powr (real k + 1 - 0))
           + fv / (1 + y) powr (of_int n - 0)
         = (\<Sum>i = 1..nat n. (pmt ! (i - 1) + (if int i = n then fv else 0)) / (1 + y) ^ i)"
proof -
  have b: "0 < 1 + y" using assms by simp
  have m: "min (length pmt) (nat n) = nat n" using assms by simp
  have p: "(1 + y) powr (real k + 1) = (1 + y) ^ Suc k" for k
    using powr_realpow [OF b, of "Suc k"] by (simp add: add.commute)
  have pn: "(1 + y) powr (of_int n) = (1 + y) ^ nat n"
    using powr_realpow [OF b, of "nat n"] assms by simp
  have "(\<Sum>i = 1..nat n. (pmt ! (i - 1) + (if int i = n then fv else 0)) / (1 + y) ^ i)
      = (\<Sum>i = 1..nat n. pmt ! (i - 1) / (1 + y) ^ i)
        + (\<Sum>i = 1..nat n. (if i = nat n then fv / (1 + y) ^ i else 0))"
    unfolding sum.distrib [symmetric]
    by (rule sum.cong) (use assms in \<open>auto simp: add_divide_distrib\<close>)
  also have "(\<Sum>i = 1..nat n. (if i = nat n then fv / (1 + y) ^ i else 0))
             = fv / (1 + y) ^ nat n"
    using assms by (subst sum.delta) auto
  also have "(\<Sum>i = 1..nat n. pmt ! (i - 1) / (1 + y) ^ i)
             = (\<Sum>k<nat n. pmt ! k / (1 + y) ^ Suc k)"
    by (rule sum.reindex_bij_witness [where i = Suc and j = "\<lambda>i. i - 1"]) auto
  finally show ?thesis
    by (simp add: m p pn)
qed

text \<open>
  On a coupon date \<^verbatim>\<open>BondInfo.dirtyPrice\<close> does what C4 says: with a yield above -1,
  at least one period and a coupon for every period, the accrued interest is 0 and
  both prices are the sum of \<open>amount i / (1 + y) ^ i\<close> over the periods, the last
  amount carrying the face value.
\<close>

lemma BondInfo_dirtyPrice_on_coupon:
  assumes "self_t self = self_T self" "self_y self = Fin y" "- 1 < y"
    and "1 \<le> self_n self" "nat (self_n self) \<le> length (self_pmt self)"
  shows "BondInfo_dirtyPrice self =
     (let dirty = (\<Sum>i = 1..nat (self_n self).
                     (self_pmt self ! (i - 1) + (if int i = self_n self then self_fv self else 0))
                       / (1 + y) ^ i)
      in Inr (Fin dirty, Fin 0, Fin dirty))"
  using assms on_coupon_sum [OF assms(3,4,5), of "self_fv self"]
  by (simp add: BondInfo_dirtyPrice_def discounted_sum_pos Let_def)

lemma BondInfo_dirtyPrice_stub:
  assumes "self_t self \<noteq> self_T self" "self_T self \<noteq> 0" "self_y self = Fin y" "- 1 < y"
    and "2 \<le> length (self_pmt self)"
  shows "BondInfo_dirtyPrice self =
     (let f = self_t self / self_T self;
          dirty = (\<Sum>k<min (length (self_pmt self)) (nat (self_n self)).
                      self_pmt self ! k / (1 + y) powr (real k + 1 - f))
                  + self_fv self / (1 + y) powr (of_int (self_n self) - f);
          accrued = self_pmt self ! 1 * f
      in Inr (Fin dirty, Fin accrued, Fin (dirty - accrued)))"
  using assms by (simp add: BondInfo_dirtyPrice_def discounted_sum_pos Let_def)



subsection \<open>Pricing on a coupon date\<close>

text \<open>
  C4, at a \<^verbatim>\<open>FixedRateBond\<close> bought one year before maturity (15 November 2019 to
  15 November 2020, face value 100, coupon 8%, yield 8%, two coupons a year, basis 360):
  the period has \<open>t = T = 180\<close>, and \<^verbatim>\<open>dirtyPrice\<close> raises \<^verbatim>\<open>NameError\<close> where the claim
  has it return the three prices.
\<close>

theorem FixedRateBond_dirtyPrice_on_coupon_raises:
  "FixedRateBond_init (mk_date 2019 11 15) (mk_date 2020 11 15) 100 8 2 (Fin 8) 360
     = Inr fixed_par_bond
   \<and> self_t fixed_par_bond = self_T fixed_par_bond
   \<and> FixedRateBond_dirtyPrice fixed_par_bond = Inl NameError"
  by (simp add: init_simps fixed_par_bond_def FixedRateBond_dirtyPrice_def)

subsection \<open>Accrued interest between coupon dates\<close>

text \<open>
  C5, at a \<^verbatim>\<open>BondInfo\<close> bought on 15 January 2020 and maturing on 15 December 2020
  (face value 100, coupons of 8% then 10%, yield 8%, two coupons a year, basis 360).
  The period is \<open>n = 2\<close>, \<open>T = 180\<close>, \<open>t = 30\<close> and the coupons are 4 and 5. The
  accrued interest that \<^verbatim>\<open>dirtyPrice\<close> returns is \<open>5 * (30 / 180)\<close>, on the second
  coupon \<^verbatim>\<open>pmt[1]\<close>; on the first upcoming coupon it would be \<open>4 * (30 / 180)\<close>.
\<close>

theorem BondInfo_accrued_on_second_coupon:
  "BondInfo_init (mk_date 2020 1 15) (mk_date 2020 12 15) 100 [8, 10] 2 (Fin 8) 360
     = Inr stub_bond
   \<and> self_pmt stub_bond = [4, 5]
   \<and> BondInfo_dirtyPrice stub_bond =
       (let dirty = 4 / (26 / 25) powr (5 / 6) + 105 / (26 / 25) powr (11 / 6)
        in Inr (Fin dirty, Fin (5 * (30 / 180)), Fin (dirty - 5 * (30 / 180))))"
proof -
  have "BondInfo_dirtyPrice stub_bond =
   (let f = self_t stub_bond / self_T stub_bond;
        dirty = (\<Sum>k<min (length (self_pmt stub_bond)) (nat (self_n stub_bond)).
                    self_pmt stub_bond ! k / (1 + 1 / 25) powr (real k + 1 - f))
                + self_fv stub_bond / (1 + 1 / 25) powr (of_int (self_n stub_bond) - f);
        accrued = self_pmt stub_bond ! 1 * f
    in Inr (Fin dirty, Fin accrued, Fin (dirty - accrued)))"
    by (rule BondInfo_dirtyPrice_stub) (simp_all add: stub_bond_def)
  then have "BondInfo_dirtyPrice stub_bond =
       (let dirty = 4 / (26 / 25) powr (5 / 6) + 105 / (26 / 25) powr (11 / 6)
        in Inr (Fin dirty, Fin (5 * (30 / 180)), Fin (dirty - 5 * (30 / 180))))"
    by (simp add: stub_bond_def Let_def lessThan_Suc numeral_2_eq_2 add_divide_distrib)
  then show ?thesis
    by (simp add: init_simps stub_bond_def)
qed

subsection \<open>Coupon series shorter than the period count\<close>




subsection \<open>Yields of -1 and below\<close>

lemma real_power_neg_int: "b < 0 \<Longrightarrow> real_power b (of_int i) = Fin (b powi i)"
  by (simp add: real_power_def)

lemma coupon_sum_neg:
  assumes "b < 0"
  shows "coupon_sum pmt (Fin b) n 0 =
         Fin (\<Sum>k<min (length pmt) (nat n). pmt ! k / b ^ (k + 1))"
proof -
  have "real_power b (1 + real k) = Fin (b ^ Suc k)" for k
  proof -
    have "1 + real k = of_int (int (Suc k))" by simp
    then have "real_power b (1 + real k) = Fin (b powi int (Suc k))"
      using real_power_neg_int [OF assms] by metis
    then show ?thesis
      by (simp only: power_int_of_nat)
  qed
  moreover have "b ^ Suc k \<noteq> 0" for k
    using assms by simp
  ultimately have "coupon_sum pmt (Fin b) n 0 =
        py_sum (map (\<lambda>k. Fin (pmt ! k / b ^ (k + 1))) [0..<min (length pmt) (nat n)])"
    using assms by (simp add: coupon_sum_def zip_upto_conv o_def add.commute)
  also have "\<dots> = Fin (\<Sum>k<min (length pmt) (nat n). pmt ! k / b ^ (k + 1))"
    by (simp add: py_sum_Fin interv_sum_list_conv_sum_set_nat atLeast0LessThan)
  finally show ?thesis .
qed

lemma discounted_sum_neg:
  assumes "y < - 1" "0 \<le> n"
  shows "discounted_sum pmt fv (Fin y) n 0 =
         Inr (Fin ((\<Sum>k<min (length pmt) (nat n). pmt ! k / (1 + y) ^ (k + 1))
                   + fv / (1 + y) ^ nat n))"
proof -
  have "real_of_int n \<in> \<int>" by simp
  then have "real_power (1 + y) (of_int n) = Fin ((1 + y) ^ nat n)"
    using assms by (simp add: real_power_def power_int_def)
  moreover have "(1 + y) ^ nat n \<noteq> 0"
    using assms by simp
  ultimately show ?thesis
    using assms by (simp add: discounted_sum_def coupon_sum_neg Let_def)
qed

lemma discounted_sum_minus_one:
  assumes "of_int n \<noteq> f"
  shows "discounted_sum pmt fv (Fin (- 1)) n f = Inl ZeroDivisionError"
  using assms by (simp add: discounted_sum_def Let_def real_power_def)

lemma py_power_not_DomainError: "py_power x e \<noteq> Inl DomainError"
  by (cases x) auto

lemma py_truediv_not_DomainError: "py_truediv a x \<noteq> Inl DomainError"
  by (cases x) auto

lemma and_then_not:
  assumes "x \<noteq> Inl e" "\<And>v. f v \<noteq> Inl e"
  shows "and_then x f \<noteq> Inl e"
  using assms by (cases x) auto

lemma discounted_sum_not_DomainError: "discounted_sum pmt fv y n f \<noteq> Inl DomainError"
  unfolding discounted_sum_def Let_def
  by (intro and_then_not py_power_not_DomainError py_truediv_not_DomainError) simp_all

lemma closed_form_not_DomainError: "closed_form pmt fv y n f \<noteq> Inl DomainError"
  unfolding closed_form_def annuity_balloon_def Let_def
  by (intro and_then_not py_power_not_DomainError py_truediv_not_DomainError) simp_all

lemma BondInfo_dirtyPrice_not_DomainError: "BondInfo_dirtyPrice b \<noteq> Inl DomainError"
  unfolding BondInfo_dirtyPrice_def Let_def
  by (simp add: and_then_not discounted_sum_not_DomainError)

lemma FixedRateBond_dirtyPrice_not_DomainError: "FixedRateBond_dirtyPrice b \<noteq> Inl DomainError"
  unfolding FixedRateBond_dirtyPrice_def Let_def
  by (simp add: and_then_not closed_form_not_DomainError)

text \<open>
  C7, as stated, at the two-period bond on a coupon date (coupons of 4, face value 100).
  With \<^verbatim>\<open>ytm = -400\<close> the yield per period is -2, and \<^verbatim>\<open>dirtyPrice\<close> returns the
  discounted sum \<open>4 / (-1) + 4 / (-1)\<^sup>2 + 100 / (-1)\<^sup>2 = 100\<close>. With \<^verbatim>\<open>ytm = -200\<close> the
  yield is -1 and the call fails, with the \<^verbatim>\<open>ZeroDivisionError\<close> of the discount
  formula.
\<close>

theorem BondInfo_dirtyPrice_below_minus_one:
  "and_then (BondInfo_init (mk_date 2019 11 15) (mk_date 2020 11 15) 100 [8, 8] 2 (Fin (- 400)) 360)
     BondInfo_dirtyPrice = Inr (Fin 100, Fin 0, Fin 100)
   \<and> and_then (BondInfo_init (mk_date 2019 11 15) (mk_date 2020 11 15) 100 [8, 8] 2 (Fin (- 200)) 360)
     BondInfo_dirtyPrice = Inl ZeroDivisionError"
  by (simp add: init_simps BondInfo_dirtyPrice_def discounted_sum_def coupon_sum_def
      real_power_def py_sum_def upto.simps)

text \<open>
  C7, amended. The pricing functions have no guard on the yield and never fail with
  \<^verbatim>\<open>DomainError\<close>: at a yield of -1 or below they evaluate the discount formula. For a
  \<^verbatim>\<open>BondInfo\<close> with \<open>n \<ge> 1\<close> and \<open>0 < t \<le> T\<close>: at \<open>y = -1\<close> \<^verbatim>\<open>dirtyPrice\<close> fails with the
  \<^verbatim>\<open>ZeroDivisionError\<close> of the division by \<open>(1 + y) ^ (n - f)\<close>; at \<open>y < -1\<close> on a coupon
  date it returns the accrued interest 0 and, as both prices, the sum of
  \<open>coupon i / (1 + y) ^ i\<close> plus \<open>fv / (1 + y) ^ n\<close>.
\<close>

theorem dirtyPrice_no_domain_guard:
  assumes "self_y b = Fin y" "y \<le> - 1" "1 \<le> self_n b" "0 < self_t b" "self_t b \<le> self_T b"
  shows "BondInfo_dirtyPrice b \<noteq> Inl DomainError
       \<and> FixedRateBond_dirtyPrice b' \<noteq> Inl DomainError
       \<and> (y = - 1 \<longrightarrow> BondInfo_dirtyPrice b = Inl ZeroDivisionError)
       \<and> (y < - 1 \<and> self_t b = self_T b \<longrightarrow>
            BondInfo_dirtyPrice b =
              (let m = min (length (self_pmt b)) (nat (self_n b));
                   dirty = (\<Sum>k<m. self_pmt b ! k / (1 + y) ^ (k + 1))
                         + self_fv b / (1 + y) ^ nat (self_n b)
               in Inr (Fin dirty, Fin 0, Fin dirty)))"
proof -
  have "BondInfo_dirtyPrice b = Inl ZeroDivisionError" if "y = - 1"
  proof -
    have "self_t b / self_T b \<le> 1"
      using assms by simp
    then have "of_int (self_n b) \<noteq> self_t b / self_T b" if "self_t b \<noteq> self_T b"
      using assms that
      by (smt (verit) divide_eq_1_iff nonzero_eq_divide_eq of_int_1_le_iff)
    moreover have "of_int (self_n b) \<noteq> (0::real)"
      using assms by simp
    ultimately show ?thesis
      using assms that
      by (auto simp: BondInfo_dirtyPrice_def Let_def discounted_sum_minus_one)
  qed
  moreover have "BondInfo_dirtyPrice b =
              (let m = min (length (self_pmt b)) (nat (self_n b));
                   dirty = (\<Sum>k<m. self_pmt b ! k / (1 + y) ^ (k + 1))
                         + self_fv b / (1 + y) ^ nat (self_n b)
               in Inr (Fin dirty, Fin 0, Fin dirty))"
    if "y < - 1" "self_t b = self_T b"
    using assms that by (simp add: BondInfo_dirtyPrice_def Let_def discounted_sum_neg)
  ultimately show ?thesis
    using BondInfo_dirtyPrice_not_DomainError FixedRateBond_dirtyPrice_not_DomainError
    by blast
qed

theorem dirtyPrice_no_domain_guard_witness:
  "self_y (par_bond\<lparr>self_y := Fin (- 2)\<rparr>) = Fin (- 2) \<and> (- 2 :: real) \<le> - 1
   \<and> 1 \<le> self_n (par_bond\<lparr>self_y := Fin (- 2)\<rparr>)
   \<and> 0 < self_t (par_bond\<lparr>self_y := Fin (- 2)\<rparr>)
   \<and> self_t (par_bond\<lparr>self_y := Fin (- 2)\<rparr>) \<le> self_T (par_bond\<lparr>self_y := Fin (- 2)\<rparr>)
   \<and> BondInfo_dirtyPrice (par_bond\<lparr>self_y := Fin (- 2)\<rparr>) = Inr (Fin 100, Fin 0, Fin 100)"
  using dirtyPrice_no_domain_guard [of "par_bond\<lparr>self_y := Fin (- 2)\<rparr>" "- 2" fixed_par_bond]
  by (simp add: par_bond_def Let_def lessThan_Suc numeral_2_eq_2)

subsection \<open>The closed form and the summation\<close>

lemma annuity_step:
  fixes b p pmt :: real
  assumes "b \<noteq> 0" "p \<noteq> 0" "b - 1 \<noteq> 0"
  shows "pmt / (b - 1) * (1 - 1 / p) + pmt / (p * b) = pmt / (b - 1) * (1 - 1 / (p * b))"
proof -
  have k: "pmt / (b - 1) * (1 / p - 1 / (p * b)) = pmt / (p * b)"
    using assms by (simp add: field_simps)
  have "pmt / (b - 1) * (1 - 1 / p) + pmt / (b - 1) * (1 / p - 1 / (p * b))
        = pmt / (b - 1) * ((1 - 1 / p) + (1 / p - 1 / (p * b)))"
    by (simp only: distrib_left)
  also have "(1 - 1 / p) + (1 / p - 1 / (p * b)) = 1 - 1 / (p * b)"
    by simp
  finally show ?thesis
    by (simp only: k)
qed

lemma annuity_sum:
  fixes y pmt :: real
  assumes "y \<noteq> 0" "- 1 < y"
  shows "(\<Sum>k<n. pmt / (1 + y) ^ Suc k) = pmt / y * (1 - 1 / (1 + y) ^ n)"
proof (induction n)
  case 0
  then show ?case by simp
next
  case (Suc n)
  have "pmt / (1 + y - 1) * (1 - 1 / (1 + y) ^ n) + pmt / ((1 + y) ^ n * (1 + y))
        = pmt / (1 + y - 1) * (1 - 1 / ((1 + y) ^ n * (1 + y)))"
    by (rule annuity_step) (use assms in auto)
  then have "pmt / y * (1 - 1 / (1 + y) ^ n) + pmt / (1 + y) ^ Suc n
        = pmt / y * (1 - 1 / (1 + y) ^ Suc n)"
    by (simp add: mult.commute)
  with Suc show ?case by simp
qed

lemma powr_index_shift:
  fixes b f :: real
  assumes "0 < b"
  shows "b powr (real k + 1 - f) = b ^ Suc k / b powr f"
    and "b powr (of_int n - f) = b powr of_int n / b powr f"
proof -
  have "b powr (real (Suc k) - f) = b powr real (Suc k) / b powr f"
    by (rule powr_diff)
  then show "b powr (real k + 1 - f) = b ^ Suc k / b powr f"
    using powr_realpow [OF assms, of "Suc k"] by (simp add: add.commute)
  show "b powr (of_int n - f) = b powr of_int n / b powr f"
    by (rule powr_diff)
qed

lemma closed_form_value:
  assumes "- 1 < y" "y \<noteq> 0" "0 \<le> n"
  shows "closed_form pmt fv (Fin y) n f =
         Inr (Fin ((pmt / y * (1 - 1 / (1 + y) ^ nat n) + fv / (1 + y) ^ nat n)
                   * (1 + y) powr f))"
proof -
  have b: "0 < 1 + y" using assms by simp
  have pn: "(1 + y) powr (of_int n) = (1 + y) ^ nat n"
    using powr_realpow [OF b, of "nat n"] assms by simp
  show ?thesis
    using assms b
    by (simp add: closed_form_def annuity_balloon_def real_power_def pn Let_def)
qed

lemma constant_sum_value:
  assumes "- 1 < y" "y \<noteq> 0" "0 \<le> n"
  shows "(\<Sum>k<nat n. pmt / (1 + y) powr (real k + 1 - f)) + fv / (1 + y) powr (of_int n - f)
         = (pmt / y * (1 - 1 / (1 + y) ^ nat n) + fv / (1 + y) ^ nat n) * (1 + y) powr f"
proof -
  have b: "0 < 1 + y" using assms by simp
  have pn: "(1 + y) powr (of_int n) = (1 + y) ^ nat n"
    using powr_realpow [OF b, of "nat n"] assms by simp
  have "(\<Sum>k<nat n. pmt / (1 + y) powr (real k + 1 - f))
        = (\<Sum>k<nat n. pmt / (1 + y) ^ Suc k * (1 + y) powr f)"
    by (rule sum.cong) (simp_all add: powr_index_shift(1) [OF b])
  also have "\<dots> = (\<Sum>k<nat n. pmt / (1 + y) ^ Suc k) * (1 + y) powr f"
    by (simp add: sum_distrib_right)
  also have "\<dots> = pmt / y * (1 - 1 / (1 + y) ^ nat n) * (1 + y) powr f"
    by (simp only: annuity_sum [OF assms(2,1)])
  finally have s: "(\<Sum>k<nat n. pmt / (1 + y) powr (real k + 1 - f))
        = pmt / y * (1 - 1 / (1 + y) ^ nat n) * (1 + y) powr f" .
  have "fv / (1 + y) powr (of_int n - f) = fv / (1 + y) ^ nat n * (1 + y) powr f"
    by (simp add: powr_index_shift(2) [OF b] pn)
  with s show ?thesis
    by (simp add: distrib_right)
qed

lemma amounts_sum:
  fixes b f pmt fv :: real
  assumes "1 \<le> n"
  shows "(\<Sum>i = 1..nat n. (if int i = n then pmt + fv else pmt) / b powr (real i - f))
         = (\<Sum>k<nat n. pmt / b powr (real k + 1 - f)) + fv / b powr (of_int n - f)"
proof -
  have "(\<Sum>i = 1..nat n. (if int i = n then pmt + fv else pmt) / b powr (real i - f))
      = (\<Sum>i = 1..nat n. pmt / b powr (real i - f))
        + (\<Sum>i = 1..nat n. (if i = nat n then fv / b powr (real i - f) else 0))"
    unfolding sum.distrib [symmetric]
    by (rule sum.cong) (use assms in \<open>auto simp: add_divide_distrib\<close>)
  also have "(\<Sum>i = 1..nat n. (if i = nat n then fv / b powr (real i - f) else 0))
             = fv / b powr (real (nat n) - f)"
    using assms by (subst sum.delta) auto
  also have "(\<Sum>i = 1..nat n. pmt / b powr (real i - f))
             = (\<Sum>k<nat n. pmt / b powr (real k + 1 - f))"
    by (rule sum.reindex_bij_witness [where i = Suc and j = "\<lambda>i. i - 1"])
       (auto simp: add.commute)
  finally show ?thesis
    using assms by simp
qed




text \<open>
  \<^verbatim>\<open>FixedRateBond.dirtyPrice\<close> between coupon dates: the accrued interest is on the
  one coupon, and the clean price is the dirty price less the accrued interest.
\<close>

lemma FixedRateBond_dirtyPrice_stub:
  assumes "self_t self \<noteq> self_T self" "self_T self \<noteq> 0" "self_y self = Fin y"
    and "- 1 < y" "y \<noteq> 0" "0 \<le> self_n self"
  shows "FixedRateBond_dirtyPrice self =
     (let f = self_t self / self_T self;
          dirty = (self_pmt self / y * (1 - 1 / (1 + y) ^ nat (self_n self))
                   + self_fv self / (1 + y) ^ nat (self_n self)) * (1 + y) powr f;
          accrued = self_pmt self * f
      in Inr (Fin dirty, Fin accrued, Fin (dirty - accrued)))"
  using assms(1,2,3)
  by (simp add: FixedRateBond_dirtyPrice_def closed_form_value [OF assms(4,5,6)] Let_def)

text \<open>
  \<^verbatim>\<open>FixedRateBond.simplePrice\<close>, the method that the coupon-date branch of
  \<^verbatim>\<open>dirtyPrice\<close> means to call, returns the sum of the discounted amounts.
\<close>

lemma FixedRateBond_simplePrice_sum:
  assumes "self_y self = Fin y" "- 1 < y" "y \<noteq> 0" "1 \<le> self_n self"
  shows "FixedRateBond_simplePrice self =
     Inr (Fin (\<Sum>i = 1..nat (self_n self).
                 (if int i = self_n self then self_pmt self + self_fv self else self_pmt self)
                   / (1 + y) ^ i))"
proof -
  have n0: "0 \<le> self_n self" using assms by simp
  have b: "0 < 1 + y" using assms by simp
  have pn: "(1 + y) powr (of_int (self_n self)) = (1 + y) ^ nat (self_n self)"
    using powr_realpow [OF b, of "nat (self_n self)"] n0 by simp
  have pw: "(1 + y) powr (real i - 0) = (1 + y) ^ i" for i
    using powr_realpow [OF b, of i] by simp
  have "FixedRateBond_simplePrice self =
        Inr (Fin (self_pmt self / y * (1 - 1 / (1 + y) ^ nat (self_n self))
                  + self_fv self / (1 + y) ^ nat (self_n self)))"
    using assms b
    by (simp add: FixedRateBond_simplePrice_def annuity_balloon_def real_power_def pn Let_def)
  also have "self_pmt self / y * (1 - 1 / (1 + y) ^ nat (self_n self))
                  + self_fv self / (1 + y) ^ nat (self_n self)
     = (\<Sum>i = 1..nat (self_n self).
          (if int i = self_n self then self_pmt self + self_fv self else self_pmt self)
            / (1 + y) powr (real i - 0))"
    using constant_sum_value [OF assms(2,3) n0, of "self_pmt self" 0 "self_fv self"]
      amounts_sum [OF assms(4), of "self_pmt self" "self_fv self" "1 + y" 0] b
    by simp
  finally show ?thesis
    by (simp only: pw)
qed

text \<open>
  The two \<^verbatim>\<open>dirtyPrice\<close> methods as wholes, between coupon dates: on objects that differ
  only in the coupon (one number, or \<open>n\<close> copies of it, \<open>n \<ge> 2\<close>) they return the same
  three prices.
\<close>

lemma dirtyPrice_paths_agree:
  assumes "self_y b1 = Fin y" "self_y b2 = Fin y" "- 1 < y" "y \<noteq> 0"
    and "self_n b2 = self_n b1" "self_fv b2 = self_fv b1"
    and "self_t b2 = self_t b1" "self_T b2 = self_T b1"
    and "self_pmt b2 = replicate (nat (self_n b1)) (self_pmt b1)"
    and "2 \<le> self_n b1" "self_t b1 \<noteq> self_T b1" "self_T b1 \<noteq> 0"
  shows "FixedRateBond_dirtyPrice b1 = BondInfo_dirtyPrice b2"
proof -
  have n: "0 \<le> self_n b1" "\<not> nat (self_n b1) < 2"
      "replicate (nat (self_n b1)) (self_pmt b1) ! 1 = self_pmt b1"
    using assms(10) by simp_all
  have "closed_form (self_pmt b1) (self_fv b1) (Fin y) (self_n b1) (self_t b1 / self_T b1)
        = discounted_sum (replicate (nat (self_n b1)) (self_pmt b1)) (self_fv b1) (Fin y)
            (self_n b1) (self_t b1 / self_T b1)"
    using closed_form_value [OF assms(3,4) n(1)]
      discounted_sum_pos [OF assms(3)] constant_sum_value [OF assms(3,4) n(1)]
    by simp
  then show ?thesis
    using assms n
    by (simp add: FixedRateBond_dirtyPrice_def BondInfo_dirtyPrice_def Let_def)
qed

subsection \<open>Solving for the yield\<close>









subsection \<open>A root finder that does not converge\<close>




end
